theory Spec2Isabelle
  imports Complex_Main "HOL-Library.AList"
begin

section \<open>Values and documents\<close>

text \<open>
  A Python \<open>float\<close> is an IEEE-754 binary64 number.  A finite one is represented by
  the rational it denotes; the two zeros are identified (they compare equal in Python).
\<close>

datatype pyfloat = Finite rat | PosInf | NegInf | NaN

text \<open>
  The values a stored document or a request field can hold.  \<open>VOid\<close> is a
  \<open>bson.ObjectId\<close>, kept as its 24 lower-case hexadecimal digits.
\<close>

datatype pyvalue =
    VNone
  | VBool bool
  | VInt int
  | VFloat pyfloat
  | VStr string
  | VOid string
  | VList "pyvalue list"
  | VDict "(string \<times> pyvalue) list"

text \<open>
  A document is a Python \<open>dict\<close> with string keys: an association list in
  insertion order.  \<open>d[k] = v\<close> is \<open>AList.update k v d\<close> (an existing key keeps its
  place, a new one goes last), \<open>d.pop(k)\<close> leaves \<open>AList.delete k d\<close>, \<open>k in d\<close> and
  \<open>d.get(k)\<close> read \<open>map_of d k\<close>.
\<close>

type_synonym doc = "(string \<times> pyvalue) list"

subsection \<open>serialize_doc (main.py, lines 27 to 33)\<close>

text \<open>
  The argument is \<open>None\<close> or a dict.  \<open>not doc\<close> holds for \<open>None\<close> and for the
  empty dict.  Python's \<open>str\<close> on the popped identifier is the parameter \<open>str_of\<close>.
\<close>

definition serialize_doc :: "(pyvalue \<Rightarrow> string) \<Rightarrow> doc option \<Rightarrow> doc option" where
  "serialize_doc str_of doc =
     (case doc of
        None \<Rightarrow> None
      | Some d \<Rightarrow>
          if d = [] then Some d
          else (case map_of d ''_id'' of
                  Some v \<Rightarrow> Some (AList.update ''id'' (VStr (str_of v)) (AList.delete ''_id'' d))
                | None \<Rightarrow> Some d))"

section \<open>Float arithmetic\<close>

text \<open>
  Binary64 arithmetic rounds the exact result to the nearest representable number, ties
  to the even significand.  \<open>bitlen n\<close> is the number of binary digits of \<open>n\<close>,
  \<open>pow2 k\<close> is \<open>2\<close> to the power \<open>k\<close> for an integer \<open>k\<close>, and \<open>exponent_of q\<close> is the
  \<open>e\<close> with \<open>pow2 e \<le> \<bar>q\<bar> < pow2 (e + 1)\<close> for a nonzero \<open>q\<close>.
\<close>

fun bitlen :: "nat \<Rightarrow> nat" where
  "bitlen n = (if n = 0 then 0 else Suc (bitlen (n div 2)))"

declare bitlen.simps [simp del]

definition pow2 :: "int \<Rightarrow> rat" where
  "pow2 k = (if 0 \<le> k then 2 ^ nat k else 1 / 2 ^ nat (- k))"

definition exponent_of :: "rat \<Rightarrow> int" where
  "exponent_of q =
     (let (a, b) = quotient_of \<bar>q\<bar>;
          k = int (bitlen (nat a)) - int (bitlen (nat b))
      in if pow2 k \<le> \<bar>q\<bar> then k else k - 1)"

definition round_half_even :: "rat \<Rightarrow> int" where
  "round_half_even q =
     (let f = \<lfloor>q\<rfloor>; r = q - of_int f
      in if r < 1 / 2 then f
         else if 1 / 2 < r then f + 1
         else if even f then f else f + 1)"

text \<open>
  \<open>b64 q\<close> is the binary64 number nearest to the rational \<open>q\<close>: 53 significant bits for
  a normal number, a multiple of \<open>pow2 (- 1074)\<close> below the normal range, an infinity
  when the rounded magnitude reaches \<open>pow2 1024\<close>.  A float literal of the source such
  as \<open>12.99\<close> denotes \<open>b64 (1299 / 100)\<close>.
\<close>

definition b64 :: "rat \<Rightarrow> pyfloat" where
  "b64 q =
     (if q = 0 then Finite 0
      else let e = max (exponent_of q) (- 1022);
               u = pow2 (e - 52);
               r = of_int (round_half_even (q / u)) * u
           in if pow2 1024 \<le> \<bar>r\<bar> then (if 0 < q then PosInf else NegInf)
              else Finite r)"

fun fadd :: "pyfloat \<Rightarrow> pyfloat \<Rightarrow> pyfloat" where
  "fadd (Finite a) (Finite b) = b64 (a + b)"
| "fadd NaN _ = NaN"
| "fadd _ NaN = NaN"
| "fadd PosInf NegInf = NaN"
| "fadd NegInf PosInf = NaN"
| "fadd PosInf _ = PosInf"
| "fadd NegInf _ = NegInf"
| "fadd _ PosInf = PosInf"
| "fadd _ NegInf = NegInf"

fun fneg :: "pyfloat \<Rightarrow> pyfloat" where
  "fneg (Finite a) = Finite (- a)"
| "fneg PosInf = NegInf"
| "fneg NegInf = PosInf"
| "fneg NaN = NaN"

fun fmul :: "pyfloat \<Rightarrow> pyfloat \<Rightarrow> pyfloat" where
  "fmul (Finite a) (Finite b) = b64 (a * b)"
| "fmul NaN _ = NaN"
| "fmul _ NaN = NaN"
| "fmul (Finite a) y = (if a = 0 then NaN else if 0 < a then y else fneg y)"
| "fmul x (Finite b) = (if b = 0 then NaN else if 0 < b then x else fneg x)"
| "fmul PosInf y = y"
| "fmul NegInf y = fneg y"

section \<open>Exceptions and HTTP errors\<close>

text \<open>
  The exceptions the handlers can meet.  \<open>NoDatabase\<close> is raised by the helpers of the
  \<open>database\<close> module when no store is configured, \<open>StoreError\<close> (with the driver's
  message) by a store that cannot answer, \<open>InvalidId\<close> by \<open>ObjectId\<close>, the others by
  \<open>float\<close>, by the conversion of an \<open>int\<close> to a float, and by \<open>round\<close>;
  \<open>NotImplementedError\<close> by the truth test of a database handle.
\<close>

datatype exn =
    NoDatabase
  | StoreError string
  | InvalidId string
  | ValueError
  | TypeError
  | OverflowError
  | NotImplementedError

text \<open>
  The detail of an \<open>HTTPException\<close> is a literal text or \<open>str(e)\<close> of a caught
  exception \<open>e\<close>, which is kept as \<open>StrOf e\<close>.
\<close>

datatype detail = Text string | StrOf exn

datatype HTTPException = HTTPException (status_code: nat) (detail: detail)

text \<open>What a \<open>try\<close> body can raise: an \<open>HTTPException\<close> or any other exception.\<close>

datatype raised = Raised_HTTP HTTPException | Raised exn

section \<open>The store\<close>

text \<open>
  Modelled from the spec: the module \<open>database\<close> (the handle \<open>db\<close>, \<open>create_document\<close>,
  \<open>get_documents\<close>) is not part of the sources.  The handle is absent (\<open>None\<close>) or a
  document database: named collections of documents in storage order, a supply of
  fresh identifiers, and \<open>fault\<close>, which is \<open>Some m\<close> while the store cannot answer
  (every call to it then raises with the message \<open>m\<close>).
\<close>

record database =
  name :: string
  collections :: "(string \<times> doc list) list"
  next_id :: nat
  fault :: "string option"

text \<open>
  \<open>main.py\<close> uses the handle as a pymongo \<open>Database\<close> (\<open>db["product"]\<close>,
  \<open>count_documents\<close>, \<open>find_one\<close>, \<open>list_collection_names\<close>, \<open>db.name\<close>).  Such an
  object has no truth value: \<open>bool(db)\<close>, which \<open>... if db else ...\<close> evaluates, raises
  \<open>NotImplementedError\<close>; presence is tested by \<open>db is not None\<close>.  \<open>bool(None)\<close> is
  \<open>False\<close>.
\<close>

definition truth_value :: "database option \<Rightarrow> exn + bool" where
  "truth_value db = (case db of None \<Rightarrow> Inr False | Some st \<Rightarrow> Inl NotImplementedError)"

definition collection :: "database \<Rightarrow> string \<Rightarrow> doc list" where
  "collection st c = (case map_of (collections st) c of Some ds \<Rightarrow> ds | None \<Rightarrow> [])"

text \<open>A query document matches a document that has every field of the query with an equal value.\<close>

definition matches :: "doc \<Rightarrow> doc \<Rightarrow> bool" where
  "matches q d = list_all (\<lambda>(k, v). map_of d k = Some v) q"

definition count_documents :: "database \<Rightarrow> string \<Rightarrow> doc \<Rightarrow> exn + nat" where
  "count_documents st c q =
     (case fault st of
        Some m \<Rightarrow> Inl (StoreError m)
      | None \<Rightarrow> Inr (length (filter (matches q) (collection st c))))"

definition find_one :: "database \<Rightarrow> string \<Rightarrow> doc \<Rightarrow> exn + doc option" where
  "find_one st c q =
     (case fault st of
        Some m \<Rightarrow> Inl (StoreError m)
      | None \<Rightarrow> Inr (find (matches q) (collection st c)))"

definition list_collection_names :: "database \<Rightarrow> exn + string list" where
  "list_collection_names st =
     (case fault st of
        Some m \<Rightarrow> Inl (StoreError m)
      | None \<Rightarrow> Inr (map fst (collections st)))"

text \<open>
  Modelled from the spec: \<open>get_documents\<close> is the filtered listing of a collection
  (``returns only products whose category field exactly matches'').
\<close>

definition get_documents :: "database option \<Rightarrow> string \<Rightarrow> doc \<Rightarrow> exn + doc list" where
  "get_documents db c q =
     (case db of
        None \<Rightarrow> Inl NoDatabase
      | Some st \<Rightarrow>
          (case fault st of
             Some m \<Rightarrow> Inl (StoreError m)
           | None \<Rightarrow> Inr (filter (matches q) (collection st c))))"

text \<open>The identifier the store assigns: the counter as 24 hexadecimal digits.\<close>

definition hex_digit :: "nat \<Rightarrow> char" where
  "hex_digit n = ''0123456789abcdef'' ! (n mod 16)"

fun hex_of :: "nat \<Rightarrow> nat \<Rightarrow> string" where
  "hex_of 0 n = []"
| "hex_of (Suc k) n = hex_of k (n div 16) @ [hex_digit n]"

definition new_oid :: "database \<Rightarrow> string" where
  "new_oid st = hex_of 24 (next_id st)"

text \<open>
  Modelled from the spec: \<open>create_document\<close> ``inserts a new record, store assigns a
  unique identifier, returns it'', and an unavailable store ``surfaces as a
  request-level error''.  It returns the identifier as a string, with the new store.
\<close>

definition create_document ::
  "database option \<Rightarrow> string \<Rightarrow> doc \<Rightarrow> (exn + string) \<times> database option" where
  "create_document db c data =
     (case db of
        None \<Rightarrow> (Inl NoDatabase, db)
      | Some st \<Rightarrow>
          (case fault st of
             Some m \<Rightarrow> (Inl (StoreError m), db)
           | None \<Rightarrow>
               (Inr (new_oid st),
                Some (st\<lparr>collections :=
                           AList.update c
                             (collection st c @ [AList.update ''_id'' (VOid (new_oid st)) data])
                             (collections st),
                         next_id := Suc (next_id st)\<rparr>))))"

section \<open>The handlers of main.py\<close>

subsection \<open>seed_products (lines 36 to 72)\<close>

definition sample :: "doc list" where
  "sample =
     [[(''title'', VStr ''Corrugated Boxes - Small''),
       (''description'', VStr ''Durable small corrugated boxes for light shipments.''),
       (''price'', VFloat (b64 (1299 / 100))),
       (''category'', VStr ''Boxes''),
       (''image'', VStr ''https://images.unsplash.com/photo-1585166276991-9a6f4018f3a0''),
       (''in_stock'', VBool True)],
      [(''title'', VStr ''Bubble Wrap Roll''),
       (''description'', VStr ''High-quality bubble wrap for fragile items.''),
       (''price'', VFloat (b64 (195 / 10))),
       (''category'', VStr ''Protective''),
       (''image'', VStr ''https://images.unsplash.com/photo-1585386959984-a4155223168f''),
       (''in_stock'', VBool True)],
      [(''title'', VStr ''Packing Tape - Heavy Duty''),
       (''description'', VStr ''Strong adhesive packing tape for secure sealing.''),
       (''price'', VFloat (b64 (475 / 100))),
       (''category'', VStr ''Tape''),
       (''image'', VStr ''https://images.unsplash.com/photo-1516637090014-cb1ab0d08fc7''),
       (''in_stock'', VBool True)]]"

text \<open>The loop \<open>for p in sample: create_document("product", p)\<close>; an exception ends it.\<close>

fun create_documents ::
  "database option \<Rightarrow> string \<Rightarrow> doc list \<Rightarrow> (exn + unit) \<times> database option" where
  "create_documents db c [] = (Inr (), db)"
| "create_documents db c (p # ps) =
     (case create_document db c p of
        (Inl e, db') \<Rightarrow> (Inl e, db')
      | (Inr _, db') \<Rightarrow> create_documents db' c ps)"

record seed_response =
  message :: string
  count :: nat

definition seed_products :: "database option \<Rightarrow> (HTTPException + seed_response) \<times> database option" where
  "seed_products db =
     (case (case truth_value db of
              Inl e \<Rightarrow> Inl e
            | Inr t \<Rightarrow>
                if t then (case db of
                             Some st \<Rightarrow> count_documents st ''product'' []
                           | None \<Rightarrow> Inl TypeError)
                else Inr 0) of
        Inl e \<Rightarrow> (Inl (HTTPException 500 (StrOf e)), db)
      | Inr n \<Rightarrow>
          if 0 < n then (Inr \<lparr>message = ''Products already seeded'', count = n\<rparr>, db)
          else (case create_documents db ''product'' sample of
                  (Inl e, db') \<Rightarrow> (Inl (HTTPException 500 (StrOf e)), db')
                | (Inr _, db') \<Rightarrow>
                    (Inr \<lparr>message = ''Seeded sample products'', count = length sample\<rparr>, db')))"

subsection \<open>list_products (lines 75 to 82)\<close>

text \<open>\<open>category\<close> is \<open>None\<close> or a string; \<open>if category\<close> holds for a non-empty string.\<close>

definition list_products ::
  "(pyvalue \<Rightarrow> string) \<Rightarrow> database option \<Rightarrow> string option \<Rightarrow> HTTPException + doc option list" where
  "list_products str_of db category =
     (let query = (case category of
                     Some c \<Rightarrow> if c \<noteq> [] then [(''category'', VStr c)] else []
                   | None \<Rightarrow> [])
      in case get_documents db ''product'' query of
           Inl e \<Rightarrow> Inl (HTTPException 500 (StrOf e))
         | Inr docs \<Rightarrow> Inr (map (\<lambda>d. serialize_doc str_of (Some d)) docs))"

subsection \<open>create_order (lines 96 to 113)\<close>

text \<open>
  Modelled from the spec: the module \<open>schemas\<close> (\<open>Order\<close>, \<open>OrderItem\<close>) is not part of
  the sources.  An item is a product reference (an identifier string) and a quantity
  (an integer).  A request carries its items and, as \<open>other_fields\<close>, whatever else the
  \<open>Order\<close> schema holds: the buyer fields, and a \<open>total_amount\<close> when the client sent
  one.  \<open>model_dump\<close> is the request as a dict.
\<close>

record OrderItem =
  product_id :: string
  quantity :: int

record CreateOrderRequest =
  other_fields :: doc
  items :: "OrderItem list"

definition model_dump :: "CreateOrderRequest \<Rightarrow> doc" where
  "model_dump order =
     AList.update ''items''
       (VList (map (\<lambda>i. VDict [(''product_id'', VStr (product_id i)),
                               (''quantity'', VInt (quantity i))]) (items order)))
       (other_fields order)"

text \<open>
  \<open>bson.ObjectId\<close> of a string: a string of length 24 is passed to \<open>bytes.fromhex\<close>,
  and \<open>InvalidId\<close> is raised when that fails or the length is not 24.
  \<open>bytes.fromhex\<close> reads pairs of hexadecimal digits and skips ASCII whitespace before
  a pair; the bytes are kept here as lower-case hexadecimal digits.
\<close>

definition lower_hex :: "char \<Rightarrow> char" where
  "lower_hex c =
     (if c = CHR ''A'' then CHR ''a'' else if c = CHR ''B'' then CHR ''b''
      else if c = CHR ''C'' then CHR ''c'' else if c = CHR ''D'' then CHR ''d''
      else if c = CHR ''E'' then CHR ''e'' else if c = CHR ''F'' then CHR ''f'' else c)"

definition is_hex :: "char \<Rightarrow> bool" where
  "is_hex c = (c \<in> set ''0123456789abcdefABCDEF'')"

definition is_space :: "char \<Rightarrow> bool" where
  "is_space c = (c \<in> set [CHR '' '', CHR 0x09, CHR 0x0A, CHR 0x0B, CHR 0x0C, CHR 0x0D])"

fun fromhex :: "string \<Rightarrow> string option" where
  "fromhex [] = Some []"
| "fromhex [c] = (if is_space c then Some [] else None)"
| "fromhex (c # d # cs) =
     (if is_space c then fromhex (d # cs)
      else if is_hex c \<and> is_hex d
           then (case fromhex cs of
                   None \<Rightarrow> None
                 | Some bs \<Rightarrow> Some (lower_hex c # lower_hex d # bs))
           else None)"

definition ObjectId :: "string \<Rightarrow> exn + string" where
  "ObjectId s =
     (if length s = 24
      then (case fromhex s of None \<Rightarrow> Inl (InvalidId s) | Some bs \<Rightarrow> Inr bs)
      else Inl (InvalidId s))"

text \<open>
  The conversion of an \<open>int\<close> to a float rounds to the nearest binary64 number and
  raises \<open>OverflowError\<close> beyond the finite range.  \<open>float(v)\<close> of a stored value:
  floats, ints and bools convert, a string is parsed (the parser is the parameter
  \<open>float_of_str\<close>), every other value raises \<open>TypeError\<close>.
\<close>

definition float_of_int :: "int \<Rightarrow> exn + pyfloat" where
  "float_of_int n = (case b64 (of_int n) of Finite r \<Rightarrow> Inr (Finite r) | _ \<Rightarrow> Inl OverflowError)"

fun py_float :: "(string \<Rightarrow> exn + pyfloat) \<Rightarrow> pyvalue \<Rightarrow> exn + pyfloat" where
  "py_float float_of_str (VFloat f) = Inr f"
| "py_float float_of_str (VInt n) = float_of_int n"
| "py_float float_of_str (VBool b) = Inr (Finite (if b then 1 else 0))"
| "py_float float_of_str (VStr s) = float_of_str s"
| "py_float float_of_str v = Inl TypeError"

text \<open>
  \<open>round(x, ndigits)\<close> of a float, for \<open>ndigits\<close> from 0 to 323: the exact value is
  rounded to \<open>ndigits\<close> decimal places, ties to the even digit, and the decimal is
  converted back to the nearest float; infinities and NaN round to themselves.
\<close>

definition py_round :: "pyfloat \<Rightarrow> nat \<Rightarrow> exn + pyfloat" where
  "py_round x ndigits =
     (case x of
        Finite q \<Rightarrow>
          (case b64 (of_int (round_half_even (q * 10 ^ ndigits)) / 10 ^ ndigits) of
             Finite r \<Rightarrow> Inr (Finite r)
           | _ \<Rightarrow> Inl OverflowError)
      | _ \<Rightarrow> Inr x)"

text \<open>
  Line 102: \<open>db["product"].find_one({"_id": ObjectId(item.product_id)}) if db else None\<close>.
  The second component lists the identifiers for which \<open>find_one\<close> was called.
\<close>

definition find_product :: "database option \<Rightarrow> string \<Rightarrow> (exn + doc option) \<times> string list" where
  "find_product db pid =
     (case truth_value db of
        Inl e \<Rightarrow> (Inl e, [])
      | Inr t \<Rightarrow>
          if t then (case db of
                       None \<Rightarrow> (Inl TypeError, [])
                     | Some st \<Rightarrow>
                         (case ObjectId pid of
                            Inl e \<Rightarrow> (Inl e, [])
                          | Inr oid \<Rightarrow> (find_one st ''product'' [(''_id'', VOid oid)], [pid])))
          else (Inr None, []))"

text \<open>Line 105: \<open>float(prod.get("price", 0)) * item.quantity\<close>.\<close>

definition line_amount ::
  "(string \<Rightarrow> exn + pyfloat) \<Rightarrow> doc \<Rightarrow> OrderItem \<Rightarrow> exn + pyfloat" where
  "line_amount float_of_str p item =
     (case py_float float_of_str (case map_of p ''price'' of Some v \<Rightarrow> v | None \<Rightarrow> VInt 0) of
        Inl e \<Rightarrow> Inl e
      | Inr price \<Rightarrow>
          (case float_of_int (quantity item) of
             Inl e \<Rightarrow> Inl e
           | Inr q \<Rightarrow> Inr (fmul price q)))"

text \<open>The body of the loop, lines 102 to 105, on the running total \<open>tot\<close>.\<close>

definition add_item ::
  "(string \<Rightarrow> exn + pyfloat) \<Rightarrow> database option \<Rightarrow> OrderItem \<Rightarrow> pyfloat \<Rightarrow>
     (raised + pyfloat) \<times> string list" where
  "add_item float_of_str db item tot =
     (case find_product db (product_id item) of
        (Inl e, looked) \<Rightarrow> (Inl (Raised e), looked)
      | (Inr found, looked) \<Rightarrow>
          (case (case found of None \<Rightarrow> None | Some p \<Rightarrow> if p = [] then None else Some p) of
             None \<Rightarrow>
               (Inl (Raised_HTTP
                  (HTTPException 404 (Text (''Product not found: '' @ product_id item)))), looked)
           | Some p \<Rightarrow>
               (case line_amount float_of_str p item of
                  Inl e \<Rightarrow> (Inl (Raised e), looked)
                | Inr a \<Rightarrow> (Inr (fadd tot a), looked))))"

text \<open>The loop of lines 101 to 105.\<close>

fun order_total ::
  "(string \<Rightarrow> exn + pyfloat) \<Rightarrow> database option \<Rightarrow> OrderItem list \<Rightarrow> pyfloat \<Rightarrow>
     (raised + pyfloat) \<times> string list" where
  "order_total float_of_str db [] tot = (Inr tot, [])"
| "order_total float_of_str db (item # rest) tot =
     (case add_item float_of_str db item tot of
        (Inl e, looked) \<Rightarrow> (Inl e, looked)
      | (Inr tot', looked) \<Rightarrow>
          (case order_total float_of_str db rest tot' of
             (r, looked') \<Rightarrow> (r, looked @ looked')))"

text \<open>The response \<open>{"id": new_id, "total": order_dict["total_amount"]}\<close>.\<close>

record order_response =
  r_id :: string
  r_total :: pyfloat

text \<open>
  The handler returns the response or the \<open>HTTPException\<close>, the store after the call,
  and the identifiers that were looked up.
\<close>

definition create_order ::
  "(string \<Rightarrow> exn + pyfloat) \<Rightarrow> database option \<Rightarrow> CreateOrderRequest \<Rightarrow>
     (HTTPException + order_response) \<times> database option \<times> string list" where
  "create_order float_of_str db order =
     (case order_total float_of_str db (items order) (Finite 0) of
        (Inl (Raised_HTTP h), looked) \<Rightarrow> (Inl h, db, looked)
      | (Inl (Raised e), looked) \<Rightarrow> (Inl (HTTPException 500 (StrOf e)), db, looked)
      | (Inr tot, looked) \<Rightarrow>
          (case py_round tot 2 of
             Inl e \<Rightarrow> (Inl (HTTPException 500 (StrOf e)), db, looked)
           | Inr rounded \<Rightarrow>
               (case create_document db ''order''
                       (AList.update ''total_amount'' (VFloat rounded) (model_dump order)) of
                  (Inl e, db') \<Rightarrow> (Inl (HTTPException 500 (StrOf e)), db', looked)
                | (Inr oid, db') \<Rightarrow> (Inr \<lparr>r_id = oid, r_total = rounded\<rparr>, db', looked))))"



subsection \<open>test_database (lines 115 to 150)\<close>

text \<open>
  The marks of the status texts are given by their UTF-8 bytes.  The response dict
  has the keys \<open>backend\<close>, \<open>database\<close>, \<open>database_url\<close>, \<open>database_name\<close>,
  \<open>connection_status\<close> and \<open>collections\<close>; \<open>str(e)\<close> of a caught exception is the
  parameter \<open>str_exn\<close>, and \<open>getenv\<close> reads the environment.  The handler returns
  the response; \<open>Inl\<close> would be an exception that leaves it.
\<close>

definition mark_ok :: string where
  "mark_ok = [CHR 0xE2, CHR 0x9C, CHR 0x85]"

definition mark_no :: string where
  "mark_no = [CHR 0xE2, CHR 0x9D, CHR 0x8C]"

definition mark_warn :: string where
  "mark_warn = [CHR 0xE2, CHR 0x9A, CHR 0xA0, CHR 0xEF, CHR 0xB8, CHR 0x8F]"

record test_response =
  r_backend :: string
  r_database :: string
  r_database_url :: "string option"
  r_database_name :: "string option"
  r_connection_status :: string
  r_collections :: "string list"

definition env_set :: "string option \<Rightarrow> bool" where
  "env_set v = (case v of None \<Rightarrow> False | Some s \<Rightarrow> s \<noteq> [])"

text \<open>The inner \<open>try\<close> of lines 134 to 139 with its handler.\<close>

definition probe_collections :: "(exn \<Rightarrow> string) \<Rightarrow> database \<Rightarrow> test_response \<Rightarrow> test_response" where
  "probe_collections str_exn st response =
     (case list_collection_names st of
        Inr cs \<Rightarrow>
          response\<lparr>r_collections := take 10 cs,
                   r_database := mark_ok @ '' Connected & Working''\<rparr>
      | Inl e \<Rightarrow>
          response\<lparr>r_database := mark_warn @ ''  Connected but Error: '' @ take 50 (str_exn e)\<rparr>)"

text \<open>
  The body of the outer \<open>try\<close>, lines 128 to 141: the exception it ends with, if any,
  and the response as it stands then.  A \<open>Database\<close> has the attribute \<open>name\<close>, and
  the only call that can raise, \<open>list_collection_names\<close>, is inside the inner \<open>try\<close>.
\<close>

definition probe_store ::
  "(exn \<Rightarrow> string) \<Rightarrow> database option \<Rightarrow> test_response \<Rightarrow> exn option \<times> test_response" where
  "probe_store str_exn db response =
     (case db of
        Some st \<Rightarrow>
          (None,
           probe_collections str_exn st
             (response\<lparr>r_database := mark_ok @ '' Available'',
                       r_database_url := Some (mark_ok @ '' Configured''),
                       r_database_name := Some (name st),
                       r_connection_status := ''Connected''\<rparr>))
      | None \<Rightarrow>
          (None, response\<lparr>r_database := mark_warn @ ''  Available but not initialized''\<rparr>))"

definition test_database ::
  "(exn \<Rightarrow> string) \<Rightarrow> database option \<Rightarrow> (string \<Rightarrow> string option) \<Rightarrow> exn + test_response" where
  "test_database str_exn db getenv =
     (let response =
            \<lparr>r_backend = mark_ok @ '' Running'',
             r_database = mark_no @ '' Not Available'',
             r_database_url = None,
             r_database_name = None,
             r_connection_status = ''Not Connected'',
             r_collections = []\<rparr>;
          response =
            (case probe_store str_exn db response of
               (None, response') \<Rightarrow> response'
             | (Some e, response') \<Rightarrow>
                 response'\<lparr>r_database := mark_no @ '' Error: '' @ take 50 (str_exn e)\<rparr>)
      in Inr (response
                \<lparr>r_database_url :=
                   Some (if env_set (getenv ''DATABASE_URL'') then mark_ok @ '' Set''
                         else mark_no @ '' Not Set''),
                 r_database_name :=
                   Some (if env_set (getenv ''DATABASE_NAME'') then mark_ok @ '' Set''
                         else mark_no @ '' Not Set'')\<rparr>))"

section \<open>A small store for the instances\<close>

definition product_a :: doc where
  "product_a =
     [(''_id'', VOid ''64b000000000000000000001''),
      (''title'', VStr ''Corrugated Boxes - Small''),
      (''price'', VFloat (b64 (1299 / 100))),
      (''category'', VStr ''Boxes'')]"

definition product_b :: doc where
  "product_b =
     [(''_id'', VOid ''64b000000000000000000002''),
      (''title'', VStr ''Bubble Wrap Roll''),
      (''price'', VFloat (b64 (195 / 10))),
      (''category'', VStr ''Protective'')]"

definition example_store :: database where
  "example_store =
     \<lparr>name = ''shop'', collections = [(''product'', [product_a, product_b])],
      next_id = 3, fault = None\<rparr>"

definition example_str :: "pyvalue \<Rightarrow> string" where
  "example_str v = (case v of VOid h \<Rightarrow> h | VStr s \<Rightarrow> s | _ \<Rightarrow> [])"

definition example_order :: CreateOrderRequest where
  "example_order =
     \<lparr>other_fields = [(''customer_name'', VStr ''Ann''), (''total_amount'', VFloat (Finite 999))],
      items = []\<rparr>"

definition product_c :: doc where
  "product_c =
     [(''_id'', VOid ''64b000000000000000000003''),
      (''title'', VStr ''Packing Tape - Heavy Duty''),
      (''category'', VStr ''Tape'')]"

definition example_store_c :: database where
  "example_store_c =
     \<lparr>name = ''shop'', collections = [(''product'', [product_c])],
      next_id = 4, fault = None\<rparr>"

section \<open>Properties of serialize_doc\<close>

lemma map_of_delete_other:
  "k \<noteq> k' \<Longrightarrow> map_of (AList.delete k' d) k = map_of d k"
  by (simp add: delete_conv')

lemma serialize_doc_None: "serialize_doc str_of None = None"
  by (simp add: serialize_doc_def)

lemma serialize_doc_empty: "serialize_doc str_of (Some []) = Some []"
  by (simp add: serialize_doc_def)

lemma serialize_doc_no_id:
  "map_of d ''_id'' = None \<Longrightarrow> serialize_doc str_of (Some d) = Some d"
  by (simp add: serialize_doc_def)

lemma serialize_doc_with_id:
  "map_of d ''_id'' = Some v \<Longrightarrow>
   serialize_doc str_of (Some d) =
     Some (AList.update ''id'' (VStr (str_of v)) (AList.delete ''_id'' d))"
  by (auto simp: serialize_doc_def)

lemma serialize_doc_drops_id:
  "serialize_doc str_of (Some d) = Some d' \<Longrightarrow> map_of d' ''_id'' = None"
  by (auto simp: serialize_doc_def update_conv' delete_conv' split: if_splits option.splits)

text \<open>
  C10 (as amended).  \<open>serialize_doc\<close> returns \<open>None\<close> and the empty document unchanged,
  and a document without \<open>_id\<close> unchanged.  On a document with \<open>_id\<close> it keeps every
  key other than \<open>_id\<close> and \<open>id\<close> with its value, removes \<open>_id\<close>, and sets \<open>id\<close> to the
  string of the removed value, replacing whatever \<open>id\<close> held before.
\<close>

theorem serialize_doc_frame:
  "serialize_doc str_of None = None \<and>
   serialize_doc str_of (Some []) = Some [] \<and>
   (map_of d ''_id'' = None \<longrightarrow> serialize_doc str_of (Some d) = Some d) \<and>
   (\<forall>v. map_of d ''_id'' = Some v \<longrightarrow>
      (\<exists>d'. serialize_doc str_of (Some d) = Some d' \<and>
            map_of d' ''_id'' = None \<and>
            map_of d' ''id'' = Some (VStr (str_of v)) \<and>
            (\<forall>k. k \<noteq> ''_id'' \<and> k \<noteq> ''id'' \<longrightarrow> map_of d' k = map_of d k)))"
  by (auto simp: serialize_doc_def update_conv' delete_conv')

theorem serialize_doc_frame_witness:
  "map_of [(''_id'', VOid ''00000000000000000000000a''), (''title'', VStr ''Tape'')] ''_id''
     = Some (VOid ''00000000000000000000000a'') \<and>
   (\<exists>d'. serialize_doc (\<lambda>v. case v of VOid h \<Rightarrow> h | _ \<Rightarrow> [])
            (Some [(''_id'', VOid ''00000000000000000000000a''), (''title'', VStr ''Tape'')])
          = Some d' \<and>
         map_of d' ''_id'' = None \<and>
         map_of d' ''id'' = Some (VStr ''00000000000000000000000a'') \<and>
         map_of d' ''title'' = Some (VStr ''Tape''))"
  using serialize_doc_frame
    [of "\<lambda>v. case v of VOid h \<Rightarrow> h | _ \<Rightarrow> []"
        "[(''_id'', VOid ''00000000000000000000000a''), (''title'', VStr ''Tape'')]"]
  by (simp add: serialize_doc_def)

text \<open>
  The claim as first stated, that every key of the input other than \<open>_id\<close> keeps its
  value, fails on a document that has both an \<open>_id\<close> and an \<open>id\<close> key: the value of the
  input's \<open>id\<close> is replaced by the string of the \<open>_id\<close>.
\<close>

theorem serialize_doc_overwrites_id:
  "\<not> (\<forall>str_of d d'. serialize_doc str_of (Some d) = Some d' \<longrightarrow>
        (\<forall>k. k \<noteq> ''_id'' \<and> map_of d k \<noteq> None \<longrightarrow> map_of d' k = map_of d k))"
proof
  assume a: "\<forall>str_of d d'. serialize_doc str_of (Some d) = Some d' \<longrightarrow>
        (\<forall>k. k \<noteq> ''_id'' \<and> map_of d k \<noteq> None \<longrightarrow> map_of d' k = map_of d k)"
  have run: "serialize_doc example_str
               (Some [(''_id'', VOid ''64b000000000000000000001''), (''id'', VInt 5)])
          = Some [(''id'', VStr ''64b000000000000000000001'')]"
    by (simp add: serialize_doc_def example_str_def)
  have key: "''id'' \<noteq> ''_id'' \<and>
      map_of [(''_id'', VOid ''64b000000000000000000001''), (''id'', VInt 5)] ''id'' \<noteq> None"
    by simp
  from a [rule_format, OF run key] show False
    by simp
qed

section \<open>Properties of the store and of seed_products\<close>

lemma matches_empty: "matches [] d"
  by (simp add: matches_def)

lemma matches_category:
  "matches [(''category'', VStr c)] d = (map_of d ''category'' = Some (VStr c))"
  by (simp add: matches_def)

lemma collection_update_same:
  "collection (st\<lparr>collections := AList.update c ds (collections st), next_id := n\<rparr>) c = ds"
  by (simp add: collection_def update_conv')

lemma collection_update_other:
  "c' \<noteq> c \<Longrightarrow>
   collection (st\<lparr>collections := AList.update c ds (collections st), next_id := n\<rparr>) c'
     = collection st c'"
  by (simp add: collection_def update_conv')

lemma create_document_ok:
  "fault st = None \<Longrightarrow>
   \<exists>st'. create_document (Some st) c p = (Inr (new_oid st), Some st') \<and>
         fault st' = None \<and>
         collection st' c = collection st c @ [AList.update ''_id'' (VOid (new_oid st)) p] \<and>
         (\<forall>c'. c' \<noteq> c \<longrightarrow> collection st' c' = collection st c')"
  by (simp add: create_document_def collection_update_same collection_update_other)

lemma create_documents_ok:
  "fault st = None \<Longrightarrow>
   \<exists>st'. create_documents (Some st) c ps = (Inr (), Some st') \<and>
         fault st' = None \<and>
         length (collection st' c) = length (collection st c) + length ps"
proof (induction ps arbitrary: st)
  case Nil
  then show ?case by simp
next
  case (Cons p ps)
  from create_document_ok [OF Cons.prems, of c p] obtain st1 where
    s1: "create_document (Some st) c p = (Inr (new_oid st), Some st1)"
    and f1: "fault st1 = None"
    and c1: "collection st1 c = collection st c @ [AList.update ''_id'' (VOid (new_oid st)) p]"
    by blast
  from Cons.IH [OF f1] obtain st' where
    s2: "create_documents (Some st1) c ps = (Inr (), Some st')"
    and f2: "fault st' = None"
    and c2: "length (collection st' c) = length (collection st1 c) + length ps"
    by blast
  show ?case using s1 s2 f2 c2 c1 by simp
qed

lemma truth_value_present: "truth_value (Some st) = Inl NotImplementedError"
  by (simp add: truth_value_def)

lemma truth_value_absent: "truth_value None = Inr False"
  by (simp add: truth_value_def)

text \<open>
  C6.  The claim does not hold of the code.  On every present store, whatever its
  product collection holds, \<open>seed_products\<close> raises at the truth test \<open>if db\<close> of line 39
  before it counts anything, and the handler of lines 71 and 72 answers with status 500:
  nothing is inserted, but the existing count is not returned.
\<close>

theorem seed_products_present_store:
  "seed_products (Some st) = (Inl (HTTPException 500 (StrOf NotImplementedError)), Some st)"
  by (simp add: seed_products_def truth_value_present)

section \<open>Properties of list_products\<close>

lemma get_documents_ok:
  "fault st = None \<Longrightarrow>
   get_documents (Some st) c q = Inr (filter (matches q) (collection st c))"
  by (simp add: get_documents_def)

lemma matches_category_fun:
  "matches [(''category'', VStr c)] = (\<lambda>d. map_of d ''category'' = Some (VStr c))"
  by (rule ext) (simp add: matches_def)

lemma matches_empty_fun: "matches [] = (\<lambda>d. True)"
  by (rule ext) (simp add: matches_def)

text \<open>
  C3 (as amended).  On a store that answers, \<open>list_products\<close> with a non-empty category
  returns exactly the products whose \<open>category\<close> field equals the argument (equality of
  strings, so case-sensitive), each passed through \<open>serialize_doc\<close>, in storage order;
  with no category, and also with the empty string, it returns all products.
\<close>

theorem list_products_filter:
  "fault st = None \<Longrightarrow>
   (c \<noteq> [] \<longrightarrow>
      list_products str_of (Some st) (Some c) =
        Inr (map (\<lambda>d. serialize_doc str_of (Some d))
               (filter (\<lambda>d. map_of d ''category'' = Some (VStr c)) (collection st ''product'')))) \<and>
   list_products str_of (Some st) None =
     Inr (map (\<lambda>d. serialize_doc str_of (Some d)) (collection st ''product'')) \<and>
   list_products str_of (Some st) (Some []) =
     Inr (map (\<lambda>d. serialize_doc str_of (Some d)) (collection st ''product''))"
  by (simp add: list_products_def get_documents_ok matches_category_fun matches_empty_fun)

theorem list_products_filter_witness:
  "fault example_store = None \<and> ''Boxes'' \<noteq> [] \<and>
   list_products example_str (Some example_store) (Some ''Boxes'') =
     Inr [Some [(''title'', VStr ''Corrugated Boxes - Small''),
                (''price'', VFloat (b64 (1299 / 100))),
                (''category'', VStr ''Boxes''),
                (''id'', VStr ''64b000000000000000000001'')]]"
  using list_products_filter [of example_store "''Boxes''" example_str]
  by (simp add: example_store_def collection_def product_a_def product_b_def
      serialize_doc_def example_str_def)

text \<open>
  The claim as first stated, for every provided category string, fails for the empty
  string: \<open>if category\<close> is false for it, so no filter is applied and products of
  every category are returned.
\<close>

theorem list_products_empty_category:
  "\<not> (\<forall>st c. fault st = None \<longrightarrow>
        list_products example_str (Some st) (Some c) =
          Inr (map (\<lambda>d. serialize_doc example_str (Some d))
                 (filter (\<lambda>d. map_of d ''category'' = Some (VStr c))
                    (collection st ''product''))))"
proof
  assume a: "\<forall>st c. fault st = None \<longrightarrow>
        list_products example_str (Some st) (Some c) =
          Inr (map (\<lambda>d. serialize_doc example_str (Some d))
                 (filter (\<lambda>d. map_of d ''category'' = Some (VStr c))
                    (collection st ''product'')))"
  have f: "fault example_store = None"
    by (simp add: example_store_def)
  have run: "list_products example_str (Some example_store) (Some []) =
      Inr (map (\<lambda>d. serialize_doc example_str (Some d)) [product_a, product_b])"
    by (simp add: list_products_def get_documents_def matches_def example_store_def
        collection_def)
  have flt: "filter (\<lambda>d. map_of d ''category'' = Some (VStr []))
               (collection example_store ''product'') = []"
    by (simp add: example_store_def collection_def product_a_def product_b_def)
  from a [rule_format, OF f, of "[]"] run flt show False
    by simp
qed

text \<open>
  C7.  Every document that \<open>list_products\<close> returns is a dict without the key \<open>_id\<close>,
  and where the stored document had an \<open>_id\<close>, its string is what the returned document
  holds under \<open>id\<close>.
\<close>

theorem list_products_hides_id:
  "list_products str_of db category = Inr rs \<Longrightarrow>
   \<exists>docs. get_documents db ''product''
            (case category of Some c \<Rightarrow> if c \<noteq> [] then [(''category'', VStr c)] else []
                            | None \<Rightarrow> []) = Inr docs \<and>
          length rs = length docs \<and>
          (\<forall>i<length docs.
             \<exists>d'. rs ! i = Some d' \<and> map_of d' ''_id'' = None \<and>
                  (\<forall>v. map_of (docs ! i) ''_id'' = Some v \<longrightarrow>
                       map_of d' ''id'' = Some (VStr (str_of v))))"
proof -
  assume run: "list_products str_of db category = Inr rs"
  let ?q = "case category of Some c \<Rightarrow> if c \<noteq> [] then [(''category'', VStr c)] else []
                            | None \<Rightarrow> []"
  from run obtain docs where g: "get_documents db ''product'' ?q = Inr docs"
    and rs: "rs = map (\<lambda>d. serialize_doc str_of (Some d)) docs"
    by (auto simp: list_products_def Let_def split: sum.splits)
  have "\<exists>d'. rs ! i = Some d' \<and> map_of d' ''_id'' = None \<and>
                  (\<forall>v. map_of (docs ! i) ''_id'' = Some v \<longrightarrow>
                       map_of d' ''id'' = Some (VStr (str_of v)))" if "i < length docs" for i
  proof -
    from that rs have e: "rs ! i = serialize_doc str_of (Some (docs ! i))" by simp
    show ?thesis
      unfolding e
      by (auto simp: serialize_doc_def update_conv' delete_conv' split: option.splits)
  qed
  with g rs show ?thesis by auto
qed

theorem list_products_hides_id_witness:
  "list_products example_str (Some example_store) None =
     Inr [Some [(''title'', VStr ''Corrugated Boxes - Small''),
                (''price'', VFloat (b64 (1299 / 100))),
                (''category'', VStr ''Boxes''),
                (''id'', VStr ''64b000000000000000000001'')],
          Some [(''title'', VStr ''Bubble Wrap Roll''),
                (''price'', VFloat (b64 (195 / 10))),
                (''category'', VStr ''Protective''),
                (''id'', VStr ''64b000000000000000000002'')]] \<and>
   (\<exists>docs. get_documents (Some example_store) ''product'' [] = Inr docs \<and>
          length docs = 2 \<and> map_of (docs ! 0) ''_id'' = Some (VOid ''64b000000000000000000001''))"
proof -
  have run: "list_products example_str (Some example_store) None =
     Inr [Some [(''title'', VStr ''Corrugated Boxes - Small''),
                (''price'', VFloat (b64 (1299 / 100))),
                (''category'', VStr ''Boxes''),
                (''id'', VStr ''64b000000000000000000001'')],
          Some [(''title'', VStr ''Bubble Wrap Roll''),
                (''price'', VFloat (b64 (195 / 10))),
                (''category'', VStr ''Protective''),
                (''id'', VStr ''64b000000000000000000002'')]]"
    by (simp add: list_products_def get_documents_def matches_def example_store_def
        collection_def product_a_def product_b_def serialize_doc_def example_str_def)
  from list_products_hides_id [OF run] obtain docs where
    g: "get_documents (Some example_store) ''product'' [] = Inr docs"
    and l: "2 = length docs"
    by auto
  from g have "docs = [product_a, product_b]"
    by (simp add: get_documents_def matches_def example_store_def collection_def)
  with g l run show ?thesis
    by (simp add: product_a_def)
qed

section \<open>Properties of create_order and test_database\<close>

lemma find_product_present: "find_product (Some st) pid = (Inl NotImplementedError, [])"
  by (simp add: find_product_def truth_value_def)


lemma add_item_present:
  "add_item fos (Some st) item tot = (Inl (Raised NotImplementedError), [])"
  by (simp add: add_item_def find_product_present)


lemma create_order_present_items:
  "items order = item # rest \<Longrightarrow>
   create_order fos (Some st) order =
     (Inl (HTTPException 500 (StrOf NotImplementedError)), Some st, [])"
  by (simp add: create_order_def add_item_present)


lemma py_round_zero: "py_round (Finite 0) 2 = Inr (Finite 0)"
  by (simp add: py_round_def round_half_even_def b64_def)

lemma create_order_absent_empty:
  "items order = [] \<Longrightarrow>
   create_order fos None order = (Inl (HTTPException 500 (StrOf NoDatabase)), None, [])"
  by (simp add: create_order_def py_round_zero create_document_def)


lemma create_order_present_empty:
  "items order = [] \<Longrightarrow> fault st = None \<Longrightarrow>
   create_order fos (Some st) order =
     (Inr \<lparr>r_id = new_oid st, r_total = Finite 0\<rparr>,
      Some (st\<lparr>collections :=
                 AList.update ''order''
                   (collection st ''order'' @
                      [AList.update ''_id'' (VOid (new_oid st))
                         (AList.update ''total_amount'' (VFloat (Finite 0)) (model_dump order))])
                   (collections st),
               next_id := Suc (next_id st)\<rparr>),
      [])"
  by (simp add: create_order_def py_round_zero create_document_def)






text \<open>
  C5 (as amended).  On a store that is present and answers, a request with no items
  succeeds with total \<open>0.0\<close>, and one order document, with \<open>total_amount\<close> \<open>0.0\<close>, is
  added to the \<open>order\<close> collection.
\<close>

theorem create_order_empty_items:
  "items order = [] \<Longrightarrow> fault st = None \<Longrightarrow>
   \<exists>st'. create_order fos (Some st) order =
           (Inr \<lparr>r_id = new_oid st, r_total = Finite 0\<rparr>, Some st', []) \<and>
         collection st' ''order'' =
           collection st ''order'' @
             [AList.update ''_id'' (VOid (new_oid st))
                (AList.update ''total_amount'' (VFloat (Finite 0)) (model_dump order))]"
proof -
  assume e: "items order = []" and f: "fault st = None"
  let ?st' = "st\<lparr>collections :=
                 AList.update ''order''
                   (collection st ''order'' @
                      [AList.update ''_id'' (VOid (new_oid st))
                         (AList.update ''total_amount'' (VFloat (Finite 0)) (model_dump order))])
                   (collections st),
               next_id := Suc (next_id st)\<rparr>"
  have "collection ?st' ''order'' =
           collection st ''order'' @
             [AList.update ''_id'' (VOid (new_oid st))
                (AList.update ''total_amount'' (VFloat (Finite 0)) (model_dump order))]"
    by (simp add: collection_def update_conv')
  with create_order_present_empty [OF e f, of fos] show ?thesis
    by (intro exI [of _ ?st']) simp
qed

theorem create_order_empty_items_witness:
  "items example_order = [] \<and> fault example_store = None \<and>
   (\<exists>st'. create_order (\<lambda>s. Inl ValueError) (Some example_store) example_order =
           (Inr \<lparr>r_id = new_oid example_store, r_total = Finite 0\<rparr>, Some st', []) \<and>
         length (collection st' ''order'') = 1)"
proof -
  have e: "items example_order = []"
    by (simp add: example_order_def)
  have f: "fault example_store = None"
    by (simp add: example_store_def)
  have c: "collection example_store ''order'' = []"
    by (simp add: example_store_def collection_def)
  from create_order_empty_items [OF e f, of "\<lambda>s. Inl ValueError"] c e f show ?thesis
    by auto
qed

text \<open>
  The claim as first stated, for every request with no items, fails where no store is
  configured: \<open>create_document\<close> raises and the handler answers with status 500.
\<close>

theorem create_order_empty_items_no_store:
  "\<not> (\<forall>fos db order. items order = [] \<longrightarrow>
        (\<exists>r db' looked. create_order fos db order = (Inr r, db', looked)))"
proof
  assume a: "\<forall>fos db order. items order = [] \<longrightarrow>
        (\<exists>r db' looked. create_order fos db order = (Inr r, db', looked))"
  have e: "items example_order = []"
    by (simp add: example_order_def)
  from a [rule_format, OF e, of "\<lambda>s. Inl ValueError" None]
    create_order_absent_empty [OF e, of "\<lambda>s. Inl ValueError"]
  show False by simp
qed

text \<open>
  C2.  The claim does not hold of the code.  On a present store, a request whose only
  item refers to no product is not answered with status 404: the truth test \<open>if db\<close>
  of line 102 raises before any lookup, and the handler of lines 112 and 113 answers
  with status 500.  Nothing is persisted and nothing is looked up.
\<close>

theorem create_order_unknown_product:
  "find (matches [(''_id'', VOid ''64b000000000000000000009'')])
     (collection example_store ''product'') = None \<and>
   create_order fos (Some example_store)
     \<lparr>other_fields = [], items = [\<lparr>product_id = ''64b000000000000000000009'', quantity = 1\<rparr>]\<rparr>
   = (Inl (HTTPException 500 (StrOf NotImplementedError)), Some example_store, [])"
  by (simp add: create_order_present_items example_store_def collection_def matches_def
      product_a_def product_b_def)

text \<open>
  C4.  The claim does not hold of the code.  With product A at 12.99 and product B at
  19.50 in the store, the request for two of A and one of B is answered with status
  500, not with a total: line 102 raises at the truth test \<open>if db\<close> for the first item.
\<close>

theorem create_order_two_items:
  "map_of product_a ''price'' = Some (VFloat (b64 (1299 / 100))) \<and>
   map_of product_b ''price'' = Some (VFloat (b64 (195 / 10))) \<and>
   collection example_store ''product'' = [product_a, product_b] \<and>
   create_order fos (Some example_store)
     \<lparr>other_fields = [],
      items = [\<lparr>product_id = ''64b000000000000000000001'', quantity = 2\<rparr>,
               \<lparr>product_id = ''64b000000000000000000002'', quantity = 1\<rparr>]\<rparr>
   = (Inl (HTTPException 500 (StrOf NotImplementedError)), Some example_store, [])"
  by (simp add: create_order_present_items example_store_def collection_def
      product_a_def product_b_def)

text \<open>
  C9.  The claim does not hold of the code.  For an item whose product exists and has
  no \<open>price\<close> field, line 105 is never reached: line 102 raises at the truth test
  \<open>if db\<close> and the request is answered with status 500.
\<close>

theorem create_order_product_without_price:
  "find (matches [(''_id'', VOid ''64b000000000000000000003'')])
     (collection example_store_c ''product'') = Some product_c \<and>
   map_of product_c ''price'' = None \<and>
   create_order fos (Some example_store_c)
     \<lparr>other_fields = [], items = [\<lparr>product_id = ''64b000000000000000000003'', quantity = 3\<rparr>]\<rparr>
   = (Inl (HTTPException 500 (StrOf NotImplementedError)), Some example_store_c, [])"
  by (simp add: create_order_present_items example_store_c_def collection_def matches_def
      product_c_def)

text \<open>
  C8.  \<open>test_database\<close> returns a status object for every store: absent, present and
  answering, or present and failing.  A failure of the store is reported in the
  \<open>database\<close> entry of the object, with the first 50 characters of its message.
\<close>

theorem test_database_never_raises:
  "\<exists>r. test_database str_exn db getenv = Inr r \<and>
       r_database r =
         (case db of
            None \<Rightarrow> mark_warn @ ''  Available but not initialized''
          | Some st \<Rightarrow>
              (case fault st of
                 None \<Rightarrow> mark_ok @ '' Connected & Working''
               | Some m \<Rightarrow>
                   mark_warn @ ''  Connected but Error: '' @ take 50 (str_exn (StoreError m)))) \<and>
       r_connection_status r = (case db of None \<Rightarrow> ''Not Connected'' | Some st \<Rightarrow> ''Connected'') \<and>
       r_collections r =
         (case db of
            None \<Rightarrow> []
          | Some st \<Rightarrow> (case fault st of None \<Rightarrow> take 10 (map fst (collections st)) | Some m \<Rightarrow> []))"
  by (simp add: test_database_def probe_store_def probe_collections_def
      list_collection_names_def split: option.splits)

end
